theory Spec2Isabelle
  imports Complex_Main "HOL-Library.Word"
begin

section \<open>Multi-level visual hashing (src/src/hashing.ts)\<close>

text \<open>
  A shallow embedding of the class \<open>VisualHasher\<close>. Conventions:
  \<^item> a thrown \<open>Error\<close> is a value of type \<open>error\<close>; every function that can throw
    returns \<open>error + 'a\<close>, with \<open>Inl\<close> for the exception;
  \<^item> a JavaScript number is an exact real, with \<open>NaN\<close> and \<open>undefined\<close> written out
    where the code can produce them (a read past the end of an array, \<open>0 / 0\<close>); the
    rounding of doubles is not modelled, so a similarity within a rounding error of a
    threshold, and the bits of the two cosine-transform hashes (\<open>Math.cos\<close> and
    \<open>Math.PI\<close> are the exact \<open>cos\<close> and \<open>pi\<close> here), can differ from the code's. The
    comparisons the properties below rest on are of a quotient of two counts with 0.8,
    with 0.6 or with a configured threshold, and of a mean of bytes with 128;
  \<^item> a size is a natural number, a sample is a byte (\<open>Uint8Array\<close>), a hash is a string
    of the characters 0 and 1;
  \<^item> the fields \<open>duration\<close> and \<open>totalDuration\<close> are differences of two readings of
    \<open>Date.now()\<close>; they depend on the wall clock only and are left out of the records;
  \<^item> the image library \<open>sharp\<close> is outside the repository and is a parameter.
\<close>

subsection \<open>Errors\<close>

datatype error =
    UnknownAlgorithm string
      \<comment> \<open>\<open>new Error(`Unknown hashing algorithm: ${algorithm}`)\<close>\<close>
  | SharpError string
      \<comment> \<open>whatever the image library throws\<close>
  | HashGenerationFailed string error
      \<comment> \<open>\<open>new Error(`Hash generation failed for algorithm ${algorithm}: ${error}`)\<close>\<close>
  | HashLengthMismatch
      \<comment> \<open>\<open>new Error('Hash lengths must be equal for Hamming distance calculation')\<close>\<close>

subsection \<open>Comparing two hashes\<close>

datatype severity = Low | Medium | High

record differences =
  count :: nat
  positions :: "nat list"
  severity :: severity

record HashComparison =
  identical :: bool
  similarity :: real
  algorithm_c :: string
  differences :: "differences option"

text \<open>
  \<open>differing hash1 hash2\<close> are the indices the two loops
  \<open>for (let i = 0; i < hash1.length; i++) if (hash1[i] !== hash2[i])\<close> stop at.
  Both loops only run once the lengths are known to be equal, so no index is out of range.
\<close>

definition differing :: "string \<Rightarrow> string \<Rightarrow> nat list" where
  "differing hash1 hash2 = filter (\<lambda>i. hash1 ! i \<noteq> hash2 ! i) [0 ..< length hash1]"

definition calculateHammingDistance :: "string \<Rightarrow> string \<Rightarrow> error + nat" where
  "calculateHammingDistance hash1 hash2 =
     (if length hash1 \<noteq> length hash2 then Inl HashLengthMismatch
      else Inr (length (differing hash1 hash2)))"

definition compareHashes :: "string \<Rightarrow> string \<Rightarrow> string \<Rightarrow> error + HashComparison" where
  "compareHashes hash1 hash2 alg =
     (if hash1 = hash2 then
        Inr \<lparr>identical = True, similarity = 1, algorithm_c = alg, differences = None\<rparr>
      else
        case calculateHammingDistance hash1 hash2 of
          Inl e \<Rightarrow> Inl e
        | Inr hammingDistance \<Rightarrow>
            let maxDistance = length hash1;
                s = 1 - real hammingDistance / real maxDistance;
                sev = (if s > 0.8 then Low else if s > 0.6 then Medium else High)
            in Inr \<lparr>identical = (s = 1), similarity = s, algorithm_c = alg,
                    differences = Some \<lparr>count = hammingDistance,
                                        positions = differing hash1 hash2,
                                        severity = sev\<rparr>\<rparr>)"

subsection \<open>JavaScript values\<close>

text \<open>
  The kernels read typed arrays and arrays of numbers by index. A read past the end gives
  \<open>undefined\<close>, which arithmetic turns into \<open>NaN\<close> and which every comparison answers with
  \<open>false\<close>. All finite numbers are exact reals. An infinity would need a division of a
  non-zero number by zero; the code divides by the constants 2 and 16 and by three counts
  (\<open>pixels.length\<close>, \<open>lowFreq.length\<close>, the histogram total) that are zero only when the
  dividend is zero too, so \<open>x / 0\<close> is only ever \<open>0 / 0 = NaN\<close>.
\<close>

datatype jsval = Num (the_num: real) | NaN | Undefined

fun to_num :: "jsval \<Rightarrow> real option" where
  "to_num (Num x) = Some x"
| "to_num NaN = None"
| "to_num Undefined = None"

definition jadd :: "jsval \<Rightarrow> jsval \<Rightarrow> jsval" where
  "jadd a b = (case (to_num a, to_num b) of (Some x, Some y) \<Rightarrow> Num (x + y) | _ \<Rightarrow> NaN)"

definition jsub :: "jsval \<Rightarrow> jsval \<Rightarrow> jsval" where
  "jsub a b = (case (to_num a, to_num b) of (Some x, Some y) \<Rightarrow> Num (x - y) | _ \<Rightarrow> NaN)"

definition jmul :: "jsval \<Rightarrow> jsval \<Rightarrow> jsval" where
  "jmul a b = (case (to_num a, to_num b) of (Some x, Some y) \<Rightarrow> Num (x * y) | _ \<Rightarrow> NaN)"

definition jdiv :: "jsval \<Rightarrow> jsval \<Rightarrow> jsval" where
  "jdiv a b = (case (to_num a, to_num b) of
                 (Some x, Some y) \<Rightarrow> if y = 0 then NaN else Num (x / y)
               | _ \<Rightarrow> NaN)"

definition jsqrt :: "jsval \<Rightarrow> jsval" where
  "jsqrt a = (case to_num a of Some x \<Rightarrow> if x < 0 then NaN else Num (sqrt x) | None \<Rightarrow> NaN)"

definition jgt :: "jsval \<Rightarrow> jsval \<Rightarrow> bool" where
  "jgt a b = (case (to_num a, to_num b) of (Some x, Some y) \<Rightarrow> x > y | _ \<Rightarrow> False)"

definition bitc :: "bool \<Rightarrow> char" where
  "bitc b = (if b then CHR ''1'' else CHR ''0'')"

type_synonym pixel = "8 word"

definition pnum :: "pixel \<Rightarrow> jsval" where
  "pnum p = Num (real (unat p))"

definition pix :: "pixel list \<Rightarrow> nat \<Rightarrow> jsval" where
  \<comment> \<open>\<open>pixels[i]\<close> on a \<open>Uint8Array\<close>\<close>
  "pix pixels i = (if i < length pixels then pnum (pixels ! i) else Undefined)"

definition arr :: "jsval list \<Rightarrow> nat \<Rightarrow> jsval" where
  \<comment> \<open>\<open>a[i]\<close> on an array of numbers\<close>
  "arr a i = (if i < length a then a ! i else Undefined)"

definition js_set :: "jsval list \<Rightarrow> nat \<Rightarrow> jsval \<Rightarrow> jsval list" where
  \<comment> \<open>\<open>a[i] = v\<close>: a write past the end extends the array, leaving holes\<close>
  "js_set a i v =
     (if i < length a then a[i := v] else a @ replicate (i - length a) Undefined @ [v])"

subsection \<open>What the code takes from outside\<close>

text \<open>
  \<open>sharp_resize img w h g\<close> is \<open>sharp(img).resize(w, h).grayscale().raw().toBuffer()\<close>
  when \<open>g\<close> holds and the same chain without \<open>grayscale()\<close> otherwise;
  \<open>sharp_blur px w h\<close> is
  \<open>sharp(px, {raw: {width: w, height: h, channels: 1}}).blur(1).raw().toBuffer()\<close>.
  Both can throw. \<open>array_sort\<close> is the engine's \<open>Array.prototype.sort\<close> with the comparator
  \<open>(a, b) => a - b\<close> on an array that holds \<open>NaN\<close> or \<open>undefined\<close>, where the comparator
  is not a consistent order and the language leaves the result to the engine.
\<close>

type_synonym image = "8 word list"

record platform =
  sharp_resize :: "image \<Rightarrow> nat \<Rightarrow> nat \<Rightarrow> bool \<Rightarrow> error + pixel list"
  sharp_blur :: "pixel list \<Rightarrow> nat \<Rightarrow> nat \<Rightarrow> error + pixel list"
  array_sort :: "jsval list \<Rightarrow> jsval list"

subsection \<open>Utility functions\<close>

definition sort_numbers :: "platform \<Rightarrow> jsval list \<Rightarrow> jsval list" where
  \<comment> \<open>\<open>[...values].sort((a, b) => a - b)\<close>\<close>
  "sort_numbers pf vals =
     (if list_all is_Num vals then map Num (sort (map the_num vals)) else array_sort pf vals)"

definition median :: "platform \<Rightarrow> jsval list \<Rightarrow> jsval" where
  "median pf vals =
     (let sorted = sort_numbers pf vals;
          mid = length sorted div 2
      in if length sorted mod 2 = 0
         then jdiv (jadd (if mid = 0 then Undefined else arr sorted (mid - 1)) (arr sorted mid))
                   (Num 2)
         else arr sorted mid)"

definition dct_sum :: "pixel list \<Rightarrow> nat \<Rightarrow> nat \<Rightarrow> nat \<Rightarrow> jsval" where
  "dct_sum pixels n u v =
     foldl (\<lambda>sum (x, y).
              let cos1 = cos (real ((2 * x + 1) * u) * pi / real (2 * n));
                  cos2 = cos (real ((2 * y + 1) * v) * pi / real (2 * n))
              in jadd sum (jmul (jmul (pix pixels (y * n + x)) (Num cos1)) (Num cos2)))
           (Num 0)
           (concat (map (\<lambda>x. map (\<lambda>y. (x, y)) [0 ..< n]) [0 ..< n]))"

definition simpleDCT :: "pixel list \<Rightarrow> nat \<Rightarrow> jsval list" where
  \<comment> \<open>entry \<open>u * size + v\<close> of the result is the sum for \<open>(u, v)\<close>\<close>
  "simpleDCT pixels n =
     concat (map (\<lambda>u. map (\<lambda>v. dct_sum pixels n u v) [0 ..< n]) [0 ..< n])"

definition haar_pass :: "jsval list \<Rightarrow> nat \<Rightarrow> nat \<Rightarrow> jsval list" where
  \<comment> \<open>the two inner loops, for one value of \<open>step\<close>\<close>
  "haar_pass result n step =
     foldl (\<lambda>r (i, j).
              let idx1 = i * n + j;
                  idx2 = (i + step) * n + j;
                  avg = jdiv (jadd (arr r idx1) (arr r idx2)) (Num 2);
                  diff = jdiv (jsub (arr r idx1) (arr r idx2)) (Num 2)
              in js_set (js_set r idx1 avg) idx2 diff)
           result
           (concat (map (\<lambda>i. map (\<lambda>j. (i, j)) [0 ..< n])
                        (filter (\<lambda>i. i mod (step * 2) = 0) [0 ..< n])))"

function haar_steps :: "jsval list \<Rightarrow> nat \<Rightarrow> nat \<Rightarrow> jsval list" where
  \<comment> \<open>\<open>for (let step = 1; step < size; step *= 2)\<close>, with \<open>step = 2 ^ k\<close>\<close>
  "haar_steps result n k =
     (if 2 ^ k < n then haar_steps (haar_pass result n (2 ^ k)) n (Suc k) else result)"
  by pat_completeness auto
termination
  by (relation "measure (\<lambda>(result, n, k). n - 2 ^ k)") (auto simp: diff_less_mono2)

definition haarWavelet :: "pixel list \<Rightarrow> nat \<Rightarrow> jsval list" where
  "haarWavelet pixels n =
     (let holes = replicate (n * n) Undefined;
          copied = foldl (\<lambda>r i. js_set r i (pnum (pixels ! i))) holes [0 ..< length pixels]
      in haar_steps copied n 0)"

definition calculateGradients :: "pixel list \<Rightarrow> nat \<Rightarrow> jsval list" where
  "calculateGradients pixels n =
     concat (map (\<lambda>y. map (\<lambda>x.
        let idx = y * n + x;
            gx = jsub (pix pixels (idx + 1)) (pix pixels (idx - 1));
            gy = jsub (pix pixels ((y + 1) * n + x)) (pix pixels ((y - 1) * n + x))
        in jsqrt (jadd (jmul gx gx) (jmul gy gy)))
       [1 ..< n - 1]) [1 ..< n - 1])"

subsection \<open>Hashing algorithms\<close>

definition thresholded :: "jsval list \<Rightarrow> jsval \<Rightarrow> string" where
  \<comment> \<open>\<open>for (const value of values) hash += value > t ? '1' : '0'\<close>\<close>
  "thresholded vals t = map (\<lambda>v. bitc (jgt v t)) vals"

definition averageHash :: "platform \<Rightarrow> image \<Rightarrow> nat \<Rightarrow> error + string" where
  "averageHash pf imageBuffer n =
     (case sharp_resize pf imageBuffer n n True of
        Inl e \<Rightarrow> Inl e
      | Inr pixels \<Rightarrow>
          let average = jdiv (foldl (\<lambda>sum p. jadd sum (pnum p)) (Num 0) pixels)
                             (Num (real (length pixels)))
          in Inr (thresholded (map pnum pixels) average))"

definition differenceHash :: "platform \<Rightarrow> image \<Rightarrow> nat \<Rightarrow> error + string" where
  "differenceHash pf imageBuffer n =
     (case sharp_resize pf imageBuffer (n + 1) (n + 1) True of
        Inl e \<Rightarrow> Inl e
      | Inr pixels \<Rightarrow>
          Inr (concat (map (\<lambda>y. map (\<lambda>x.
                 let current = pix pixels (y * (n + 1) + x);
                     next = pix pixels (y * (n + 1) + x + 1)
                 in bitc (jgt current next))
               [0 ..< n]) [0 ..< n])))"

definition perceptualHash :: "platform \<Rightarrow> image \<Rightarrow> nat \<Rightarrow> error + string" where
  "perceptualHash pf imageBuffer n =
     (case sharp_resize pf imageBuffer n n True of
        Inl e \<Rightarrow> Inl e
      | Inr pixels \<Rightarrow>
          let dct = simpleDCT pixels n;
              lowFreq = concat (map (\<lambda>i. map (\<lambda>j. arr dct (i * n + j)) [0 ..< min 8 n])
                                    [0 ..< min 8 n])
          in Inr (thresholded lowFreq (median pf lowFreq)))"

definition advancedPerceptualHash :: "platform \<Rightarrow> image \<Rightarrow> nat \<Rightarrow> error + string" where
  "advancedPerceptualHash pf imageBuffer n =
     (case sharp_resize pf imageBuffer n n True of
        Inl e \<Rightarrow> Inl e
      | Inr resized \<Rightarrow>
          (case sharp_blur pf resized n n of
             Inl e \<Rightarrow> Inl e
           | Inr blurredPixels \<Rightarrow>
               let dct = simpleDCT blurredPixels n;
                   freqCount = min (n * 2) (n * n);
                   lowFreq = map (arr dct) [0 ..< freqCount];
                   mean = jdiv (foldl jadd (Num 0) lowFreq) (Num (real (length lowFreq)))
               in Inr (thresholded lowFreq mean)))"

definition waveletHash :: "platform \<Rightarrow> image \<Rightarrow> nat \<Rightarrow> error + string" where
  \<comment> \<open>\<open>approxSize = size / 2\<close> is not rounded: \<open>i < approxSize\<close> is \<open>2 * i < size\<close>\<close>
  "waveletHash pf imageBuffer n =
     (case sharp_resize pf imageBuffer n n True of
        Inl e \<Rightarrow> Inl e
      | Inr pixels \<Rightarrow>
          let wavelet = haarWavelet pixels n;
              below = filter (\<lambda>i. 2 * i < n) [0 ..< n];
              approx = concat (map (\<lambda>i. map (\<lambda>j. arr wavelet (i * n + j)) below) below)
          in Inr (thresholded approx (median pf approx)))"

definition blockAvg :: "pixel list \<Rightarrow> nat \<Rightarrow> nat \<Rightarrow> nat \<Rightarrow> jsval" where
  \<comment> \<open>the mean of the 4 by 4 block \<open>(by, bx)\<close>, with \<open>blockSize = 4\<close>\<close>
  "blockAvg pixels n by bx =
     jdiv (foldl (\<lambda>blockSum (y, x).
                    let px = bx * 4 + x;
                        py = by * 4 + y
                    in jadd blockSum (pix pixels (py * (n * 4) + px)))
                 (Num 0)
                 (concat (map (\<lambda>y. map (\<lambda>x. (y, x)) [0 ..< 4]) [0 ..< 4])))
          (Num (4 * 4))"

definition blockHash :: "platform \<Rightarrow> image \<Rightarrow> nat \<Rightarrow> error + string" where
  "blockHash pf imageBuffer n =
     (case sharp_resize pf imageBuffer (n * 4) (n * 4) True of
        Inl e \<Rightarrow> Inl e
      | Inr pixels \<Rightarrow>
          Inr (concat (map (\<lambda>by. map (\<lambda>bx. bitc (jgt (blockAvg pixels n by bx) (Num 128)))
                                     [0 ..< n]) [0 ..< n])))"

definition structuralHash :: "platform \<Rightarrow> image \<Rightarrow> nat \<Rightarrow> error + string" where
  "structuralHash pf imageBuffer n =
     (case sharp_resize pf imageBuffer n n True of
        Inl e \<Rightarrow> Inl e
      | Inr pixels \<Rightarrow>
          let gradients = calculateGradients pixels n;
              threshold = median pf gradients
          in Inr (thresholded gradients threshold))"

definition histogram :: "pixel list \<Rightarrow> nat \<Rightarrow> nat list" where
  \<comment> \<open>\<open>for (let i = c; i < pixels.length; i += channels) histogram[pixels[i]]++\<close>,
      with \<open>channels = 3\<close>: bin \<open>v\<close> counts the samples of channel \<open>c\<close> equal to \<open>v\<close>\<close>
  "histogram pixels c =
     map (\<lambda>v. length (filter (\<lambda>i. i mod 3 = c \<and> unat (pixels ! i) = v) [0 ..< length pixels]))
         [0 ..< 256]"

definition histogram_mean :: "nat list \<Rightarrow> jsval" where
  "histogram_mean h =
     jdiv (foldl (\<lambda>sum idx. jadd sum (Num (real (h ! idx * idx)))) (Num 0) [0 ..< length h])
          (foldl (\<lambda>sum val. jadd sum (Num (real val))) (Num 0) h)"

definition colorHistogramHash :: "platform \<Rightarrow> image \<Rightarrow> nat \<Rightarrow> error + string" where
  "colorHistogramHash pf imageBuffer n =
     (case sharp_resize pf imageBuffer n n False of
        Inl e \<Rightarrow> Inl e
      | Inr pixels \<Rightarrow>
          let histograms = map (histogram pixels) [0 ..< 3]
          in Inr (map (\<lambda>h. bitc (jgt (histogram_mean h) (Num 128))) histograms))"

definition gradientHash :: "platform \<Rightarrow> image \<Rightarrow> nat \<Rightarrow> error + string" where
  "gradientHash pf imageBuffer n =
     (case sharp_resize pf imageBuffer n n True of
        Inl e \<Rightarrow> Inl e
      | Inr pixels \<Rightarrow>
          let gradients = calculateGradients pixels n;
              threshold = median pf gradients
          in Inr (thresholded gradients threshold))"

subsection \<open>Dispatch on the algorithm name\<close>

datatype meta = MNum nat | MBool bool

record HashResult =
  hash :: string
  algorithm :: string
  confidence :: real
  metadata :: "(string \<times> meta) list"

definition dispatch ::
  "platform \<Rightarrow> image \<Rightarrow> string \<Rightarrow> nat \<Rightarrow> error + (string \<times> real \<times> (string \<times> meta) list)" where
  \<comment> \<open>the \<open>switch\<close>: the hash, the confidence and the extra metadata of each case\<close>
  "dispatch pf imageBuffer alg n =
     (let plain = (\<lambda>c m r. case r of Inl e \<Rightarrow> Inl e | Inr h \<Rightarrow> Inr (h, c, m))
      in if alg = ''average'' then plain 1 [] (averageHash pf imageBuffer n)
         else if alg = ''dhash'' then plain 1 [] (differenceHash pf imageBuffer n)
         else if alg = ''phash'' then plain 1 [] (perceptualHash pf imageBuffer n)
         else if alg = ''perceptual''
           then plain 0.95 [] (advancedPerceptualHash pf imageBuffer n)
         else if alg = ''wavelet'' then plain 0.92 [] (waveletHash pf imageBuffer n)
         else if alg = ''blockhash'' then plain 0.90 [] (blockHash pf imageBuffer n)
         else if alg = ''structural''
           then plain 0.88 [(''structuralFeatures'', MBool True)]
                  (structuralHash pf imageBuffer n)
         else if alg = ''colorhistogram''
           then plain 0.85 [(''colorAnalysis'', MBool True)]
                  (colorHistogramHash pf imageBuffer n)
         else if alg = ''gradient''
           then plain 0.87 [(''gradientAnalysis'', MBool True)]
                  (gradientHash pf imageBuffer n)
         else Inl (UnknownAlgorithm alg))"

definition generateHash :: "platform \<Rightarrow> image \<Rightarrow> string \<Rightarrow> nat \<Rightarrow> error + HashResult" where
  \<comment> \<open>the \<open>catch\<close> wraps whatever the \<open>try\<close> block throws, the \<open>default\<close> case included\<close>
  "generateHash pf imageBuffer alg n =
     (case dispatch pf imageBuffer alg n of
        Inl e \<Rightarrow> Inl (HashGenerationFailed alg e)
      | Inr (h, c, m) \<Rightarrow>
          Inr \<lparr>hash = h, algorithm = alg, confidence = c,
               metadata = (''size'', MNum n) # m\<rparr>)"

subsection \<open>Options\<close>

text \<open>
  Every level of \<open>MultiLevelHashOptions\<close> is optional. An object spread copies the keys
  its argument has, also one whose value is \<open>undefined\<close>, so a key is absent, present
  with the value \<open>undefined\<close>, or present with an object; \<open>if (opts.level1)\<close> holds
  in the last case only.
\<close>

datatype 'a opt = Absent | Undef | Present 'a

record level_opts =
  algorithm_l :: string
  size_l :: nat
  threshold :: real

record level4_opts =
  enabled :: bool
  apiEndpoint :: "string option"
  semanticThreshold :: real

record MultiLevelHashOptions =
  level1 :: "level_opts opt"
  level2 :: "level_opts opt"
  level3 :: "level_opts opt"
  level4 :: "level4_opts opt"

definition over :: "'a opt \<Rightarrow> 'a opt \<Rightarrow> 'a opt" where
  "over a b = (case b of Absent \<Rightarrow> a | _ \<Rightarrow> b)"

definition spread :: "MultiLevelHashOptions \<Rightarrow> MultiLevelHashOptions \<Rightarrow> MultiLevelHashOptions" where
  \<comment> \<open>\<open>{ ...a, ...b }\<close>\<close>
  "spread a b = \<lparr>level1 = over (level1 a) (level1 b), level2 = over (level2 a) (level2 b),
                 level3 = over (level3 a) (level3 b), level4 = over (level4 a) (level4 b)\<rparr>"

definition no_options :: MultiLevelHashOptions where
  \<comment> \<open>\<open>{}\<close>, also what spreading an omitted \<open>options\<close> argument adds\<close>
  "no_options = \<lparr>level1 = Absent, level2 = Absent, level3 = Absent, level4 = Absent\<rparr>"

definition defaultOptions :: MultiLevelHashOptions where
  "defaultOptions =
     \<lparr>level1 = Present \<lparr>algorithm_l = ''dhash'', size_l = 8, threshold = 0.95\<rparr>,
      level2 = Present \<lparr>algorithm_l = ''perceptual'', size_l = 16, threshold = 0.90\<rparr>,
      level3 = Present \<lparr>algorithm_l = ''structural'', size_l = 32, threshold = 0.85\<rparr>,
      level4 = Present \<lparr>enabled = True, apiEndpoint = None, semanticThreshold = 0.80\<rparr>\<rparr>"

definition new_VisualHasher :: "MultiLevelHashOptions \<Rightarrow> MultiLevelHashOptions" where
  \<comment> \<open>the constructor; its result is \<open>this.options\<close>\<close>
  "new_VisualHasher options = spread defaultOptions options"

subsection \<open>Progressive comparison\<close>

text \<open>
  The function is modelled with a log of the calls of \<open>generateHash\<close> it makes, in the
  order it makes them: the call-count instrumentation of a test. The log is the first
  component of the result and is there also when the function throws.
\<close>

type_synonym call = "image \<times> string \<times> nat"

record outcome =
  level :: nat
  result :: HashComparison
  shouldContinue :: bool

definition logged_generateHash ::
  "platform \<Rightarrow> image \<Rightarrow> string \<Rightarrow> nat \<Rightarrow> call list \<Rightarrow> call list \<times> (error + HashResult)" where
  "logged_generateHash pf imageBuffer alg n cs =
     (cs @ [(imageBuffer, alg, n)], generateHash pf imageBuffer alg n)"

definition compare_level ::
  "platform \<Rightarrow> image \<Rightarrow> image \<Rightarrow> level_opts \<Rightarrow> call list \<Rightarrow> call list \<times> (error + HashComparison)" where
  \<comment> \<open>the first three statements of a level's block\<close>
  "compare_level pf image1 image2 l cs =
     (case logged_generateHash pf image1 (algorithm_l l) (size_l l) cs of
        (cs1, Inl e) \<Rightarrow> (cs1, Inl e)
      | (cs1, Inr hash1) \<Rightarrow>
          (case logged_generateHash pf image2 (algorithm_l l) (size_l l) cs1 of
             (cs2, Inl e) \<Rightarrow> (cs2, Inl e)
           | (cs2, Inr hash2) \<Rightarrow>
               (cs2, compareHashes (hash hash1) (hash hash2) (algorithm_l l))))"

definition level_block ::
  "platform \<Rightarrow> image \<Rightarrow> image \<Rightarrow> nat \<Rightarrow> level_opts opt \<Rightarrow>
   (call list \<Rightarrow> call list \<times> (error + outcome)) \<Rightarrow> call list \<Rightarrow> call list \<times> (error + outcome)" where
  \<comment> \<open>the block of level \<open>k\<close>; \<open>rest\<close> is the code after the block\<close>
  "level_block pf image1 image2 k lv rest cs =
     (case lv of
        Present l \<Rightarrow>
          (case compare_level pf image1 image2 l cs of
             (cs', Inl e) \<Rightarrow> (cs', Inl e)
           | (cs', Inr r) \<Rightarrow>
               if similarity r \<ge> threshold l
               then (cs', Inr \<lparr>level = k, result = r, shouldContinue = False\<rparr>)
               else rest cs')
      | _ \<Rightarrow> rest cs)"

definition placeholder :: "string \<Rightarrow> HashComparison" where
  "placeholder alg =
     \<lparr>identical = False, similarity = 0, algorithm_c = alg,
      differences = Some \<lparr>count = 0, positions = [], severity = High\<rparr>\<rparr>"

definition after_levels :: "MultiLevelHashOptions \<Rightarrow> call list \<Rightarrow> call list \<times> (error + outcome)" where
  \<comment> \<open>from \<open>if (opts.level4?.enabled)\<close> to the end\<close>
  "after_levels opts cs =
     (if (case level4 opts of Present l4 \<Rightarrow> enabled l4 | _ \<Rightarrow> False)
      then (cs, Inr \<lparr>level = 4, result = placeholder ''semantic'', shouldContinue = True\<rparr>)
      else (cs, Inr \<lparr>level = 3, result = placeholder ''progressive'',
                     shouldContinue = False\<rparr>))"

definition progressiveCompare ::
  "platform \<Rightarrow> MultiLevelHashOptions \<Rightarrow> image \<Rightarrow> image \<Rightarrow> MultiLevelHashOptions \<Rightarrow>
   call list \<times> (error + outcome)" where
  \<comment> \<open>\<open>this_options\<close> is \<open>this.options\<close>; an omitted \<open>options\<close> is \<open>no_options\<close>\<close>
  "progressiveCompare pf this_options image1 image2 options =
     (let opts = spread this_options options
      in level_block pf image1 image2 1 (level1 opts)
           (level_block pf image1 image2 2 (level2 opts)
              (level_block pf image1 image2 3 (level3 opts)
                 (after_levels opts)))
           [])"

subsection \<open>Notions used to state the properties\<close>

definition known_algorithms :: "string list" where
  \<comment> \<open>the \<open>case\<close> labels of the \<open>switch\<close> in \<open>generateHash\<close>\<close>
  "known_algorithms = [''average'', ''dhash'', ''phash'', ''perceptual'', ''wavelet'',
                       ''blockhash'', ''structural'', ''colorhistogram'', ''gradient'']"

definition levels :: "MultiLevelHashOptions \<Rightarrow> level_opts opt list" where
  "levels opts = [level1 opts, level2 opts, level3 opts]"

definition level_result ::
  "platform \<Rightarrow> image \<Rightarrow> image \<Rightarrow> level_opts \<Rightarrow> error + HashComparison" where
  \<comment> \<open>what the comparison of a level gives, whatever was logged before\<close>
  "level_result pf image1 image2 l = snd (compare_level pf image1 image2 l [])"

definition stops_with ::
  "platform \<Rightarrow> image \<Rightarrow> image \<Rightarrow> HashComparison \<Rightarrow> level_opts opt \<Rightarrow> bool" where
  \<comment> \<open>the level is configured, its comparison is \<open>r\<close> and \<open>r\<close> reaches the threshold\<close>
  "stops_with pf image1 image2 r lv =
     (case lv of
        Present l \<Rightarrow> level_result pf image1 image2 l = Inr r \<and> similarity r \<ge> threshold l
      | _ \<Rightarrow> False)"

definition passes :: "platform \<Rightarrow> image \<Rightarrow> image \<Rightarrow> level_opts opt \<Rightarrow> bool" where
  \<comment> \<open>the level is not configured, or its comparison completes below the threshold\<close>
  "passes pf image1 image2 lv =
     (case lv of
        Present l \<Rightarrow>
          (case level_result pf image1 image2 l of
             Inl e \<Rightarrow> False
           | Inr r \<Rightarrow> \<not> similarity r \<ge> threshold l)
      | _ \<Rightarrow> True)"

definition level_calls :: "image \<Rightarrow> image \<Rightarrow> level_opts opt \<Rightarrow> call list" where
  \<comment> \<open>the two calls of \<open>generateHash\<close> of a configured level\<close>
  "level_calls image1 image2 lv =
     (case lv of
        Present l \<Rightarrow> [(image1, algorithm_l l, size_l l), (image2, algorithm_l l, size_l l)]
      | _ \<Rightarrow> [])"

definition hash_length :: "string \<Rightarrow> nat \<Rightarrow> nat" where
  \<comment> \<open>the number of iterations of the loop that appends the bits, per algorithm;
      for \<open>average\<close> the loop runs over the samples the image library returned\<close>
  "hash_length alg n =
     (if alg = ''average'' then n * n
      else if alg = ''dhash'' then n * n
      else if alg = ''phash'' then min 8 n * min 8 n
      else if alg = ''perceptual'' then min (n * 2) (n * n)
      else if alg = ''wavelet'' then ((n + 1) div 2) * ((n + 1) div 2)
      else if alg = ''blockhash'' then n * n
      else if alg = ''colorhistogram'' then 3
      else (n - 2) * (n - 2))"

text \<open>
  A stand-in for the image library, to run the code on concrete inputs: it takes the
  bytes of the image as samples and repeats them up to the size asked for, one channel
  when \<open>grayscale\<close> is set and three otherwise; it rejects the empty image, blurs nothing
  and leaves an array it cannot sort as it is.
\<close>

definition test_platform :: platform where
  "test_platform =
     \<lparr>sharp_resize = (\<lambda>img w h g.
         if img = [] then Inl (SharpError ''Input Buffer is empty'')
         else Inr (map (\<lambda>i. img ! (i mod length img))
                       [0 ..< w * h * (if g then 1 else 3)])),
      sharp_blur = (\<lambda>px w h. Inr px),
      array_sort = (\<lambda>vals. vals)\<rparr>"

text \<open>The image library of a caller that hands every kernel an empty pixel buffer.\<close>

definition empty_platform :: platform where
  "empty_platform =
     \<lparr>sharp_resize = (\<lambda>img w h g. Inr []),
      sharp_blur = (\<lambda>px w h. Inr px),
      array_sort = (\<lambda>vals. vals)\<rparr>"

text \<open>
  The block algorithm as the specification words it: each block mean is compared with
  the mean of all block means. It is here to be compared with \<open>blockHash\<close>.
\<close>

definition blockHash_mean_policy :: "platform \<Rightarrow> image \<Rightarrow> nat \<Rightarrow> error + string" where
  "blockHash_mean_policy pf imageBuffer n =
     (case sharp_resize pf imageBuffer (n * 4) (n * 4) True of
        Inl e \<Rightarrow> Inl e
      | Inr pixels \<Rightarrow>
          let coefficients = concat (map (\<lambda>by. map (\<lambda>bx. blockAvg pixels n by bx) [0 ..< n])
                                         [0 ..< n]);
              mean = jdiv (foldl jadd (Num 0) coefficients) (Num (real (length coefficients)))
          in Inr (thresholded coefficients mean))"

text \<open>Two images and a configuration of small sizes, to run the escalation on.\<close>

definition example_image1 :: image where
  "example_image1 = [250, 250, 250, 10]"

definition example_image2 :: image where
  "example_image2 = [10, 200, 200, 10]"

definition example_options :: MultiLevelHashOptions where
  "example_options =
     \<lparr>level1 = Present \<lparr>algorithm_l = ''average'', size_l = 2, threshold = 0.95\<rparr>,
      level2 = Present \<lparr>algorithm_l = ''blockhash'', size_l = 1, threshold = 0.90\<rparr>,
      level3 = Present \<lparr>algorithm_l = ''colorhistogram'', size_l = 1, threshold = 0.85\<rparr>,
      level4 = Absent\<rparr>"

definition delivers_grid :: "platform \<Rightarrow> image \<Rightarrow> nat \<Rightarrow> bool" where
  \<comment> \<open>the image library, when it returns, returns one sample for each cell of the
      \<open>n\<close> by \<open>n\<close> grayscale grid asked for\<close>
  "delivers_grid pf img n =
     (case sharp_resize pf img n n True of Inr px \<Rightarrow> length px = n * n | Inl e \<Rightarrow> True)"

definition grid_width :: "string \<Rightarrow> nat \<Rightarrow> nat" where
  \<comment> \<open>the side of the grid each algorithm asks \<open>resize\<close> for\<close>
  "grid_width alg n =
     (if alg = ''dhash'' then n + 1 else if alg = ''blockhash'' then n * 4 else n)"

definition sharp_error :: "platform \<Rightarrow> image \<Rightarrow> string \<Rightarrow> nat \<Rightarrow> error option" where
  \<comment> \<open>what the image library throws in the calls the algorithm makes, if it throws\<close>
  "sharp_error pf img alg n =
     (case sharp_resize pf img (grid_width alg n) (grid_width alg n)
             (alg \<noteq> ''colorhistogram'') of
        Inl e \<Rightarrow> Some e
      | Inr px \<Rightarrow>
          if alg = ''perceptual''
          then (case sharp_blur pf px n n of Inl e \<Rightarrow> Some e | Inr b \<Rightarrow> None)
          else None)"

definition block_cells :: "(nat \<times> nat) list" where
  \<comment> \<open>the pairs \<open>(y, x)\<close> the two inner loops of \<open>blockHash\<close> run through\<close>
  "block_cells = concat (map (\<lambda>y. map (\<lambda>x. (y, x)) [0 ..< 4]) [0 ..< 4])"

section \<open>Properties\<close>

subsection \<open>The comparator\<close>

lemma differing_set: "set (differing h1 h2) = {i. i < length h1 \<and> h1 ! i \<noteq> h2 ! i}"
  by (auto simp: differing_def)

lemma differing_ascending: "sorted_wrt (<) (differing h1 h2)"
  unfolding differing_def by (rule sorted_wrt_filter) (simp add: sorted_wrt_upt[simplified])

lemma differing_count:
  "length (differing h1 h2) = card {i. i < length h1 \<and> h1 ! i \<noteq> h2 ! i}"
proof -
  have "distinct (differing h1 h2)" by (simp add: differing_def)
  then have "length (differing h1 h2) = card (set (differing h1 h2))"
    by (simp add: distinct_card)
  then show ?thesis by (simp add: differing_set)
qed

lemma differing_nonempty:
  assumes "length h1 = length h2" and "h1 \<noteq> h2"
  shows "differing h1 h2 \<noteq> []"
proof -
  from assms obtain i where "i < length h1" and "h1 ! i \<noteq> h2 ! i"
    by (auto simp: list_eq_iff_nth_eq)
  then have "i \<in> set (differing h1 h2)" by (simp add: differing_set)
  then show ?thesis by auto
qed

text \<open>
  Claim C2, as amended. Two strings of equal length that are not the same string give
  a result whose \<open>differences.count\<close> is the number of positions where they differ, whose
  \<open>similarity\<close> is 1 minus that count over the length, and whose \<open>differences.positions\<close>
  are exactly the mismatching indices, in strictly ascending order. Two equal strings
  take the early return: \<open>identical\<close>, similarity 1 and no \<open>differences\<close> object at all.
  The two examples of the specification evaluate as it says.
\<close>

theorem compareHashes_equal_length:
  assumes "length hash1 = length hash2"
  shows "(hash1 \<noteq> hash2 \<longrightarrow>
           (\<exists>r d. compareHashes hash1 hash2 alg = Inr r \<and> differences r = Some d
              \<and> count d = card {i. i < length hash1 \<and> hash1 ! i \<noteq> hash2 ! i}
              \<and> similarity r = 1 - real (count d) / real (length hash1)
              \<and> set (positions d) = {i. i < length hash1 \<and> hash1 ! i \<noteq> hash2 ! i}
              \<and> sorted_wrt (<) (positions d)
              \<and> \<not> identical r))
       \<and> (hash1 = hash2 \<longrightarrow>
           compareHashes hash1 hash2 alg =
             Inr \<lparr>identical = True, similarity = 1, algorithm_c = alg, differences = None\<rparr>)
       \<and> compareHashes ''1010101010101010'' ''1010101010101011'' alg =
           Inr \<lparr>identical = False, similarity = 0.9375, algorithm_c = alg,
                differences = Some \<lparr>count = 1, positions = [15], severity = Low\<rparr>\<rparr>
       \<and> compareHashes ''1010101010101010'' ''0000000000000000'' alg =
           Inr \<lparr>identical = False, similarity = 0.5, algorithm_c = alg,
                differences = Some \<lparr>count = 8, positions = [0, 2, 4, 6, 8, 10, 12, 14],
                                    severity = High\<rparr>\<rparr>"
proof (intro conjI impI)
  assume ne: "hash1 \<noteq> hash2"
  have pos: "differing hash1 hash2 \<noteq> []"
    using assms ne by (rule differing_nonempty)
  then have "length hash1 \<noteq> 0" by (auto simp: differing_def)
  with pos have "\<not> (1 - real (length (differing hash1 hash2)) / real (length hash1) = 1)"
    by simp
  then show "\<exists>r d. compareHashes hash1 hash2 alg = Inr r \<and> differences r = Some d
              \<and> count d = card {i. i < length hash1 \<and> hash1 ! i \<noteq> hash2 ! i}
              \<and> similarity r = 1 - real (count d) / real (length hash1)
              \<and> set (positions d) = {i. i < length hash1 \<and> hash1 ! i \<noteq> hash2 ! i}
              \<and> sorted_wrt (<) (positions d)
              \<and> \<not> identical r"
    using assms ne
    by (simp add: compareHashes_def calculateHammingDistance_def Let_def differing_count
        differing_set differing_ascending)
next
  assume "hash1 = hash2"
  then show "compareHashes hash1 hash2 alg =
      Inr \<lparr>identical = True, similarity = 1, algorithm_c = alg, differences = None\<rparr>"
    by (simp add: compareHashes_def)
next
  show "compareHashes ''1010101010101010'' ''1010101010101011'' alg =
           Inr \<lparr>identical = False, similarity = 0.9375, algorithm_c = alg,
                differences = Some \<lparr>count = 1, positions = [15], severity = Low\<rparr>\<rparr>"
    by (simp add: compareHashes_def calculateHammingDistance_def Let_def differing_def upt_rec)
next
  show "compareHashes ''1010101010101010'' ''0000000000000000'' alg =
           Inr \<lparr>identical = False, similarity = 0.5, algorithm_c = alg,
                differences = Some \<lparr>count = 8, positions = [0, 2, 4, 6, 8, 10, 12, 14],
                                    severity = High\<rparr>\<rparr>"
    by (simp add: compareHashes_def calculateHammingDistance_def Let_def differing_def upt_rec)
qed

theorem compareHashes_equal_length_witness:
  "length ''1100'' = length ''1010'' \<and> ''1100'' \<noteq> ''1010'' \<and>
   (\<exists>r d. compareHashes ''1100'' ''1010'' ''dhash'' = Inr r \<and> differences r = Some d
      \<and> count d = 2 \<and> similarity r = 1 / 2 \<and> positions d = [1, 2] \<and> \<not> identical r) \<and>
   compareHashes ''1100'' ''1100'' ''dhash'' =
     Inr \<lparr>identical = True, similarity = 1, algorithm_c = ''dhash'', differences = None\<rparr>"
proof -
  have len: "length ''1100'' = length ''1010''" by simp
  have ne: "''1100'' \<noteq> ''1010''" by simp
  from compareHashes_equal_length [OF len, of "''dhash''"] ne
  obtain r d where r: "compareHashes ''1100'' ''1010'' ''dhash'' = Inr r"
    and d: "differences r = Some d"
    and c: "count d = card {i. i < length ''1100'' \<and> ''1100'' ! i \<noteq> ''1010'' ! i}"
    and s: "similarity r = 1 - real (count d) / real (length ''1100'')"
    and n: "\<not> identical r"
    by blast
  have p: "positions d = [1, 2]"
    using r d by (auto simp: compareHashes_def calculateHammingDistance_def Let_def
        differing_def upt_rec)
  have c2: "count d = 2"
    using r d by (auto simp: compareHashes_def calculateHammingDistance_def Let_def
        differing_def upt_rec)
  have same: "compareHashes ''1100'' ''1100'' ''dhash'' =
     Inr \<lparr>identical = True, similarity = 1, algorithm_c = ''dhash'', differences = None\<rparr>"
    using compareHashes_equal_length [of "''1100''" "''1100''" "''dhash''"] by simp
  from r d c2 s p n same show ?thesis by simp
qed

text \<open>
  For C2 as it is stated (every two strings of equal length): on the same string twice
  the result carries no count and no positions.
\<close>

theorem compareHashes_same_string_counterexample:
  "compareHashes ''1010'' ''1010'' ''dhash'' =
     Inr \<lparr>identical = True, similarity = 1, algorithm_c = ''dhash'', differences = None\<rparr>"
  by (simp add: compareHashes_def)

text \<open>
  Claim C3. For two different strings of equal length the severity is \<open>low\<close> exactly when
  the similarity is strictly above 0.8, \<open>medium\<close> exactly when it is strictly above 0.6
  and not above 0.8, \<open>high\<close> otherwise; 0.8 itself is \<open>medium\<close> and 0.6 itself is \<open>high\<close>.
\<close>

theorem severity_boundaries:
  assumes "length hash1 = length hash2" and "hash1 \<noteq> hash2"
  shows "\<exists>r d. compareHashes hash1 hash2 alg = Inr r \<and> differences r = Some d
           \<and> similarity r = 1 - real (count d) / real (length hash1)
           \<and> (severity d = Low \<longleftrightarrow> similarity r > 0.8)
           \<and> (severity d = Medium \<longleftrightarrow> similarity r > 0.6 \<and> \<not> similarity r > 0.8)
           \<and> (severity d = High \<longleftrightarrow> \<not> similarity r > 0.6)
           \<and> (similarity r = 0.8 \<longrightarrow> severity d = Medium)
           \<and> (similarity r = 0.6 \<longrightarrow> severity d = High)"
  using assms by (simp add: compareHashes_def calculateHammingDistance_def Let_def)

theorem severity_boundaries_witness:
  "length ''11111'' = length ''11110'' \<and> ''11111'' \<noteq> ''11110'' \<and>
   (\<exists>r d. compareHashes ''11111'' ''11110'' ''dhash'' = Inr r \<and> differences r = Some d
      \<and> similarity r = 0.8 \<and> severity d = Medium) \<and>
   length ''11111'' = length ''11100'' \<and> ''11111'' \<noteq> ''11100'' \<and>
   (\<exists>r d. compareHashes ''11111'' ''11100'' ''dhash'' = Inr r \<and> differences r = Some d
      \<and> similarity r = 0.6 \<and> severity d = High)"
proof -
  have a: "\<exists>r d. compareHashes ''11111'' ''11110'' ''dhash'' = Inr r \<and> differences r = Some d
      \<and> similarity r = 0.8 \<and> severity d = Medium"
    using severity_boundaries [of "''11111''" "''11110''" "''dhash''"]
    by (auto simp: compareHashes_def calculateHammingDistance_def Let_def differing_def upt_rec)
  have b: "\<exists>r d. compareHashes ''11111'' ''11100'' ''dhash'' = Inr r \<and> differences r = Some d
      \<and> similarity r = 0.6 \<and> severity d = High"
    using severity_boundaries [of "''11111''" "''11100''" "''dhash''"]
    by (auto simp: compareHashes_def calculateHammingDistance_def Let_def differing_def upt_rec)
  from a b show ?thesis by simp
qed

text \<open>
  Claim C4. Two strings of unequal length make \<open>compareHashes\<close> throw the length error;
  no result is returned, so none is computed over a prefix.
\<close>

theorem compareHashes_length_mismatch:
  "length hash1 \<noteq> length hash2 \<Longrightarrow> compareHashes hash1 hash2 alg = Inl HashLengthMismatch"
  by (auto simp: compareHashes_def calculateHammingDistance_def)

theorem compareHashes_length_mismatch_witness:
  "length ''1010101010101010'' \<noteq> length ''101010101010101''
   \<and> compareHashes ''1010101010101010'' ''101010101010101'' ''dhash'' = Inl HashLengthMismatch
   \<and> length (replicate 64 CHR ''1'') \<noteq> length (replicate 256 CHR ''1'')
   \<and> compareHashes (replicate 64 CHR ''1'') (replicate 256 CHR ''1'') ''dhash''
       = Inl HashLengthMismatch"
  using compareHashes_length_mismatch [of "''1010101010101010''" "''101010101010101''" "''dhash''"]
        compareHashes_length_mismatch [of "replicate 64 CHR ''1''" "replicate 256 CHR ''1''" "''dhash''"]
  by simp

subsection \<open>The escalation\<close>

lemma generateHash_unknown:
  "alg \<notin> set known_algorithms \<Longrightarrow>
   generateHash pf img alg n = Inl (HashGenerationFailed alg (UnknownAlgorithm alg))"
  by (simp add: generateHash_def dispatch_def known_algorithms_def)

lemma compare_level_result:
  "compare_level pf image1 image2 l cs =
     (cs @ fst (compare_level pf image1 image2 l []), level_result pf image1 image2 l)"
  by (simp add: compare_level_def logged_generateHash_def level_result_def split: sum.splits)

lemma compare_level_calls:
  "level_result pf image1 image2 l = Inr r \<Longrightarrow>
   fst (compare_level pf image1 image2 l []) = level_calls image1 image2 (Present l)"
  by (auto simp: compare_level_def logged_generateHash_def level_result_def level_calls_def
      split: sum.splits)

lemma level_block_stops:
  assumes "stops_with pf image1 image2 r lv"
  shows "level_block pf image1 image2 k lv rest cs =
           (cs @ level_calls image1 image2 lv,
            Inr \<lparr>level = k, result = r, shouldContinue = False\<rparr>)"
proof (cases lv)
  case (Present l)
  with assms have res: "level_result pf image1 image2 l = Inr r"
    and thr: "similarity r \<ge> threshold l"
    by (simp_all add: stops_with_def)
  have "compare_level pf image1 image2 l cs = (cs @ level_calls image1 image2 lv, Inr r)"
    using compare_level_result [of pf image1 image2 l cs] compare_level_calls [OF res] res Present
    by simp
  with thr Present show ?thesis by (simp add: level_block_def)
qed (use assms in \<open>simp_all add: stops_with_def\<close>)

lemma level_block_passes:
  assumes "passes pf image1 image2 lv"
  shows "level_block pf image1 image2 k lv rest cs = rest (cs @ level_calls image1 image2 lv)"
proof (cases lv)
  case (Present l)
  with assms obtain r where res: "level_result pf image1 image2 l = Inr r"
    and thr: "\<not> similarity r \<ge> threshold l"
    by (auto simp: passes_def split: sum.splits)
  have "compare_level pf image1 image2 l cs = (cs @ level_calls image1 image2 lv, Inr r)"
    using compare_level_result [of pf image1 image2 l cs] compare_level_calls [OF res] res Present
    by simp
  with thr Present show ?thesis by (simp add: level_block_def)
qed (simp_all add: level_block_def level_calls_def)

lemma level_block_unknown:
  assumes "lv = Present l" and "algorithm_l l \<notin> set known_algorithms"
  shows "level_block pf image1 image2 k lv rest cs =
           (cs @ [(image1, algorithm_l l, size_l l)],
            Inl (HashGenerationFailed (algorithm_l l) (UnknownAlgorithm (algorithm_l l))))"
  using assms
  by (simp add: level_block_def compare_level_def logged_generateHash_def generateHash_unknown)

text \<open>The example images at the levels of the example configuration.\<close>

lemma eval_average_1: "averageHash test_platform example_image1 2 = Inr ''1110''"
  by (simp add: example_image1_def averageHash_def test_platform_def thresholded_def jdiv_def
      jadd_def pnum_def jgt_def bitc_def upt_rec)

lemma eval_average_2: "averageHash test_platform example_image2 2 = Inr ''0110''"
  by (simp add: example_image2_def averageHash_def test_platform_def thresholded_def jdiv_def
      jadd_def pnum_def jgt_def bitc_def upt_rec)

lemma eval_block_1: "blockHash test_platform example_image1 (Suc 0) = Inr ''1''"
  by (simp add: example_image1_def blockHash_def blockAvg_def test_platform_def pix_def jdiv_def
      jadd_def pnum_def jgt_def bitc_def upt_rec)

lemma eval_block_2: "blockHash test_platform example_image2 (Suc 0) = Inr ''0''"
  by (simp add: example_image2_def blockHash_def blockAvg_def test_platform_def pix_def jdiv_def
      jadd_def pnum_def jgt_def bitc_def upt_rec)

lemma eval_color_1: "colorHistogramHash test_platform example_image1 (Suc 0) = Inr ''111''"
  by code_simp

lemma eval_color_2: "colorHistogramHash test_platform example_image2 (Suc 0) = Inr ''011''"
  by code_simp

lemma level_result_average:
  "level_result test_platform example_image1 example_image2
     \<lparr>algorithm_l = ''average'', size_l = 2, threshold = t\<rparr> =
   Inr \<lparr>identical = False, similarity = 3 / 4, algorithm_c = ''average'',
        differences = Some \<lparr>count = 1, positions = [0], severity = Medium\<rparr>\<rparr>"
  by (simp add: level_result_def compare_level_def logged_generateHash_def generateHash_def
      dispatch_def eval_average_1 eval_average_2 compareHashes_def calculateHammingDistance_def
      differing_def upt_rec Let_def)

lemma level_result_block:
  "level_result test_platform example_image1 example_image2
     \<lparr>algorithm_l = ''blockhash'', size_l = Suc 0, threshold = t\<rparr> =
   Inr \<lparr>identical = False, similarity = 0, algorithm_c = ''blockhash'',
        differences = Some \<lparr>count = 1, positions = [0], severity = High\<rparr>\<rparr>"
  by (simp add: level_result_def compare_level_def logged_generateHash_def generateHash_def
      dispatch_def eval_block_1 eval_block_2 compareHashes_def calculateHammingDistance_def
      differing_def upt_rec Let_def)

lemma level_result_color:
  "level_result test_platform example_image1 example_image2
     \<lparr>algorithm_l = ''colorhistogram'', size_l = Suc 0, threshold = t\<rparr> =
   Inr \<lparr>identical = False, similarity = 2 / 3, algorithm_c = ''colorhistogram'',
        differences = Some \<lparr>count = 1, positions = [0], severity = Medium\<rparr>\<rparr>"
  by (simp add: level_result_def compare_level_def logged_generateHash_def generateHash_def
      dispatch_def eval_color_1 eval_color_2 compareHashes_def calculateHammingDistance_def
      differing_def upt_rec Let_def)

lemma level_result_same_image:
  assumes "generateHash pf img (algorithm_l l) (size_l l) = Inr h"
  shows "level_result pf img img l =
           Inr \<lparr>identical = True, similarity = 1, algorithm_c = algorithm_l l,
                differences = None\<rparr>"
  using assms
  by (simp add: level_result_def compare_level_def logged_generateHash_def compareHashes_def)

lemma generateHash_dhash_test:
  "img \<noteq> [] \<Longrightarrow> \<exists>h. generateHash test_platform img ''dhash'' n = Inr h"
  by (simp add: generateHash_def dispatch_def differenceHash_def test_platform_def)

text \<open>
  Claim C1. Let \<open>opts\<close> be the merged configuration. When level \<open>k + 1\<close> (one of 1, 2, 3)
  is configured and its comparison has a similarity greater than or equal to its
  threshold, and every level before it is not configured or completed below its
  threshold, \<open>progressiveCompare\<close> returns that comparison with \<open>level = k + 1\<close> and
  \<open>shouldContinue = false\<close>, and the calls of \<open>generateHash\<close> it has made are the two of
  each configured level up to \<open>k + 1\<close>, in that order, and no call of a later level.
\<close>

theorem progressiveCompare_first_level:
  assumes "opts = spread this_options options"
    and "k < 3"
    and "list_all (passes pf image1 image2) (take k (levels opts))"
    and "stops_with pf image1 image2 r (levels opts ! k)"
  shows "progressiveCompare pf this_options image1 image2 options =
           (concat (map (level_calls image1 image2) (take (Suc k) (levels opts))),
            Inr \<lparr>level = Suc k, result = r, shouldContinue = False\<rparr>)"
proof -
  from \<open>k < 3\<close> consider "k = 0" | "k = Suc 0" | "k = 2" by arith
  then show ?thesis
  proof cases
    case 1
    with assms show ?thesis
      by (simp add: progressiveCompare_def Let_def levels_def level_block_stops)
  next
    case 2
    with assms show ?thesis
      by (simp add: progressiveCompare_def Let_def levels_def level_block_stops
          level_block_passes)
  next
    case 3
    with assms show ?thesis
      by (simp add: progressiveCompare_def Let_def levels_def level_block_stops
          level_block_passes numeral_2_eq_2 numeral_3_eq_3)
  qed
qed

theorem progressiveCompare_first_level_witness:
  "progressiveCompare test_platform (new_VisualHasher no_options) example_image1 example_image2
     (example_options\<lparr>level3 := Present \<lparr>algorithm_l = ''colorhistogram'', size_l = 1,
                                           threshold = 2 / 3\<rparr>\<rparr>) =
     ([(example_image1, ''average'', 2), (example_image2, ''average'', 2),
       (example_image1, ''blockhash'', 1), (example_image2, ''blockhash'', 1),
       (example_image1, ''colorhistogram'', 1), (example_image2, ''colorhistogram'', 1)],
      Inr \<lparr>level = 3,
           result = \<lparr>identical = False, similarity = 2 / 3, algorithm_c = ''colorhistogram'',
                     differences = Some \<lparr>count = 1, positions = [0], severity = Medium\<rparr>\<rparr>,
           shouldContinue = False\<rparr>)
   \<and> progressiveCompare test_platform (new_VisualHasher no_options) example_image1
       example_image1 no_options =
     ([(example_image1, ''dhash'', 8), (example_image1, ''dhash'', 8)],
      Inr \<lparr>level = 1,
           result = \<lparr>identical = True, similarity = 1, algorithm_c = ''dhash'',
                     differences = None\<rparr>,
           shouldContinue = False\<rparr>)"
proof -
  define opts where "opts = spread (new_VisualHasher no_options)
     (example_options\<lparr>level3 := Present \<lparr>algorithm_l = ''colorhistogram'', size_l = 1,
                                           threshold = 2 / 3\<rparr>\<rparr>)"
  have lv: "levels opts =
      [Present \<lparr>algorithm_l = ''average'', size_l = 2, threshold = 0.95\<rparr>,
       Present \<lparr>algorithm_l = ''blockhash'', size_l = 1, threshold = 0.90\<rparr>,
       Present \<lparr>algorithm_l = ''colorhistogram'', size_l = 1, threshold = 2 / 3\<rparr>]"
    by (simp add: opts_def levels_def spread_def over_def example_options_def)
  have p: "list_all (passes test_platform example_image1 example_image2) (take 2 (levels opts))"
    by (simp add: lv passes_def level_result_average level_result_block)
  have s: "stops_with test_platform example_image1 example_image2
             \<lparr>identical = False, similarity = 2 / 3, algorithm_c = ''colorhistogram'',
              differences = Some \<lparr>count = 1, positions = [0], severity = Medium\<rparr>\<rparr>
             (levels opts ! 2)"
    by (simp add: lv stops_with_def level_result_color)
  have first: "progressiveCompare test_platform (new_VisualHasher no_options) example_image1
      example_image2
      (example_options\<lparr>level3 := Present \<lparr>algorithm_l = ''colorhistogram'', size_l = 1,
                                           threshold = 2 / 3\<rparr>\<rparr>) =
     ([(example_image1, ''average'', 2), (example_image2, ''average'', 2),
       (example_image1, ''blockhash'', 1), (example_image2, ''blockhash'', 1),
       (example_image1, ''colorhistogram'', 1), (example_image2, ''colorhistogram'', 1)],
      Inr \<lparr>level = 3,
           result = \<lparr>identical = False, similarity = 2 / 3, algorithm_c = ''colorhistogram'',
                     differences = Some \<lparr>count = 1, positions = [0], severity = Medium\<rparr>\<rparr>,
           shouldContinue = False\<rparr>)"
    using progressiveCompare_first_level [OF opts_def _ p s]
    by (simp add: lv level_calls_def numeral_3_eq_3)
  define dopts where "dopts = spread (new_VisualHasher no_options) no_options"
  have dlv: "levels dopts ! 0 = Present \<lparr>algorithm_l = ''dhash'', size_l = 8, threshold = 0.95\<rparr>"
    by (simp add: dopts_def levels_def spread_def over_def new_VisualHasher_def
        defaultOptions_def no_options_def)
  obtain h where h: "generateHash test_platform example_image1 ''dhash'' 8 = Inr h"
    using generateHash_dhash_test [of example_image1 8] by (auto simp: example_image1_def)
  have ds: "stops_with test_platform example_image1 example_image1
             \<lparr>identical = True, similarity = 1, algorithm_c = ''dhash'', differences = None\<rparr>
             (levels dopts ! 0)"
    using level_result_same_image [of test_platform example_image1
        "\<lparr>algorithm_l = ''dhash'', size_l = 8, threshold = 0.95\<rparr>" h] h
    by (simp add: dlv stops_with_def)
  have second: "progressiveCompare test_platform (new_VisualHasher no_options) example_image1
       example_image1 no_options =
     ([(example_image1, ''dhash'', 8), (example_image1, ''dhash'', 8)],
      Inr \<lparr>level = 1,
           result = \<lparr>identical = True, similarity = 1, algorithm_c = ''dhash'',
                     differences = None\<rparr>,
           shouldContinue = False\<rparr>)"
    using progressiveCompare_first_level [OF dopts_def _ _ ds] dlv
    by (simp add: levels_def level_calls_def)
  from first second show ?thesis by simp
qed

text \<open>
  Claim C6. When every level 1 to 3 is not configured or completes below its threshold
  and level 4 is enabled, the outcome has \<open>level = 4\<close> and \<open>shouldContinue = true\<close>, and its
  result is the constant placeholder: not identical, similarity 0, severity \<open>high\<close>. The
  function has made the hash calls of the configured levels and nothing else; the
  endpoint and the semantic threshold of level 4 are not read.
\<close>

theorem progressiveCompare_level4:
  assumes "opts = spread this_options options"
    and "list_all (passes pf image1 image2) (levels opts)"
    and "level4 opts = Present l4" and "enabled l4"
  shows "progressiveCompare pf this_options image1 image2 options =
           (concat (map (level_calls image1 image2) (levels opts)),
            Inr \<lparr>level = 4,
                 result = \<lparr>identical = False, similarity = 0, algorithm_c = ''semantic'',
                           differences = Some \<lparr>count = 0, positions = [], severity = High\<rparr>\<rparr>,
                 shouldContinue = True\<rparr>)"
  using assms
  by (simp add: progressiveCompare_def Let_def levels_def level_block_passes after_levels_def
      placeholder_def)

theorem progressiveCompare_level4_witness:
  "progressiveCompare test_platform (new_VisualHasher no_options) example_image1 example_image2
     example_options =
     ([(example_image1, ''average'', 2), (example_image2, ''average'', 2),
       (example_image1, ''blockhash'', 1), (example_image2, ''blockhash'', 1),
       (example_image1, ''colorhistogram'', 1), (example_image2, ''colorhistogram'', 1)],
      Inr \<lparr>level = 4,
           result = \<lparr>identical = False, similarity = 0, algorithm_c = ''semantic'',
                     differences = Some \<lparr>count = 0, positions = [], severity = High\<rparr>\<rparr>,
           shouldContinue = True\<rparr>)"
proof -
  define opts where "opts = spread (new_VisualHasher no_options) example_options"
  have lv: "levels opts =
      [Present \<lparr>algorithm_l = ''average'', size_l = 2, threshold = 0.95\<rparr>,
       Present \<lparr>algorithm_l = ''blockhash'', size_l = 1, threshold = 0.90\<rparr>,
       Present \<lparr>algorithm_l = ''colorhistogram'', size_l = 1, threshold = 0.85\<rparr>]"
    by (simp add: opts_def levels_def spread_def over_def example_options_def)
  have l4: "level4 opts = Present \<lparr>enabled = True, apiEndpoint = None, semanticThreshold = 0.80\<rparr>"
    by (simp add: opts_def spread_def over_def example_options_def new_VisualHasher_def
        defaultOptions_def no_options_def)
  have p: "list_all (passes test_platform example_image1 example_image2) (levels opts)"
    by (simp add: lv passes_def level_result_average level_result_block level_result_color)
  show ?thesis
    using progressiveCompare_level4 [OF opts_def p l4]
    by (simp add: lv level_calls_def)
qed

text \<open>
  Claim C7, as amended. \<open>generateHash\<close> with a name that is none of the nine \<open>case\<close>
  labels throws the unknown-algorithm error, which its \<open>catch\<close> re-throws wrapped in the
  generic hash-generation error. When the escalation comes to a level with such a name
  (every level before it not configured or completed below its threshold),
  \<open>progressiveCompare\<close> throws that wrapped error at the first hash call of the level:
  the level is not skipped and no later level runs.
\<close>

theorem unknown_algorithm_aborts:
  assumes "opts = spread this_options options"
    and "k < 3"
    and "list_all (passes pf image1 image2) (take k (levels opts))"
    and "levels opts ! k = Present l"
    and "algorithm_l l \<notin> set known_algorithms"
  shows "generateHash pf image1 (algorithm_l l) (size_l l) =
           Inl (HashGenerationFailed (algorithm_l l) (UnknownAlgorithm (algorithm_l l)))
       \<and> progressiveCompare pf this_options image1 image2 options =
           (concat (map (level_calls image1 image2) (take k (levels opts)))
              @ [(image1, algorithm_l l, size_l l)],
            Inl (HashGenerationFailed (algorithm_l l) (UnknownAlgorithm (algorithm_l l))))"
proof -
  from \<open>k < 3\<close> consider "k = 0" | "k = Suc 0" | "k = 2" by arith
  then have "progressiveCompare pf this_options image1 image2 options =
           (concat (map (level_calls image1 image2) (take k (levels opts)))
              @ [(image1, algorithm_l l, size_l l)],
            Inl (HashGenerationFailed (algorithm_l l) (UnknownAlgorithm (algorithm_l l))))"
  proof cases
    case 1
    with assms show ?thesis
      by (simp add: progressiveCompare_def Let_def levels_def level_block_unknown)
  next
    case 2
    with assms show ?thesis
      by (simp add: progressiveCompare_def Let_def levels_def level_block_unknown
          level_block_passes)
  next
    case 3
    with assms show ?thesis
      by (simp add: progressiveCompare_def Let_def levels_def level_block_unknown
          level_block_passes numeral_2_eq_2 numeral_3_eq_3)
  qed
  with assms(5) show ?thesis by (simp add: generateHash_unknown)
qed

theorem unknown_algorithm_aborts_witness:
  "generateHash test_platform example_image1 ''bogus'' 8 =
     Inl (HashGenerationFailed ''bogus'' (UnknownAlgorithm ''bogus''))
   \<and> progressiveCompare test_platform (new_VisualHasher no_options) example_image1 example_image2
       (example_options\<lparr>level2 := Present \<lparr>algorithm_l = ''bogus'', size_l = 8,
                                             threshold = 0.90\<rparr>\<rparr>) =
     ([(example_image1, ''average'', 2), (example_image2, ''average'', 2),
       (example_image1, ''bogus'', 8)],
      Inl (HashGenerationFailed ''bogus'' (UnknownAlgorithm ''bogus'')))"
proof -
  define opts where "opts = spread (new_VisualHasher no_options)
     (example_options\<lparr>level2 := Present \<lparr>algorithm_l = ''bogus'', size_l = 8,
                                           threshold = 0.90\<rparr>\<rparr>)"
  have lv: "levels opts =
      [Present \<lparr>algorithm_l = ''average'', size_l = 2, threshold = 0.95\<rparr>,
       Present \<lparr>algorithm_l = ''bogus'', size_l = 8, threshold = 0.90\<rparr>,
       Present \<lparr>algorithm_l = ''colorhistogram'', size_l = 1, threshold = 0.85\<rparr>]"
    by (simp add: opts_def levels_def spread_def over_def example_options_def)
  have p: "list_all (passes test_platform example_image1 example_image2) (take 1 (levels opts))"
    by (simp add: lv passes_def level_result_average)
  have k: "levels opts ! 1 = Present \<lparr>algorithm_l = ''bogus'', size_l = 8, threshold = 0.90\<rparr>"
    by (simp add: lv)
  have u: "algorithm_l \<lparr>algorithm_l = ''bogus'', size_l = 8, threshold = 0.90\<rparr>
             \<notin> set known_algorithms"
    by (simp add: known_algorithms_def)
  show ?thesis
    using unknown_algorithm_aborts [OF opts_def _ p k u]
    by (simp add: lv level_calls_def)
qed

text \<open>
  For C7 as it is stated (any level that names an unknown algorithm): with the default
  level 1 and the same image twice, level 1 reaches its threshold and returns; level 2
  names \<open>bogus\<close> and is never read, so nothing is thrown.
\<close>

theorem unknown_algorithm_not_reached_counterexample:
  "progressiveCompare test_platform (new_VisualHasher no_options) example_image1 example_image1
     (no_options\<lparr>level2 := Present \<lparr>algorithm_l = ''bogus'', size_l = 16,
                                      threshold = 0.90\<rparr>\<rparr>) =
     ([(example_image1, ''dhash'', 8), (example_image1, ''dhash'', 8)],
      Inr \<lparr>level = 1,
           result = \<lparr>identical = True, similarity = 1, algorithm_c = ''dhash'',
                     differences = None\<rparr>,
           shouldContinue = False\<rparr>)"
proof -
  let ?l1 = "\<lparr>algorithm_l = ''dhash'', size_l = 8, threshold = 0.95\<rparr>"
  have l1: "level1 (spread (new_VisualHasher no_options)
              (no_options\<lparr>level2 := Present \<lparr>algorithm_l = ''bogus'', size_l = 16,
                                               threshold = 0.90\<rparr>\<rparr>)) = Present ?l1"
    by (simp add: spread_def over_def new_VisualHasher_def defaultOptions_def no_options_def)
  obtain h where h: "generateHash test_platform example_image1 ''dhash'' 8 = Inr h"
    using generateHash_dhash_test [of example_image1 8] by (auto simp: example_image1_def)
  have "stops_with test_platform example_image1 example_image1
          \<lparr>identical = True, similarity = 1, algorithm_c = ''dhash'', differences = None\<rparr>
          (Present ?l1)"
    using level_result_same_image [of test_platform example_image1 ?l1 h] h
    by (simp add: stops_with_def)
  then show ?thesis
    unfolding progressiveCompare_def Let_def l1
    by (simp add: level_block_stops level_calls_def)
qed

subsection \<open>The kernels\<close>

lemma length_grid: "length (concat (map (\<lambda>y. map (f y) xs) ys)) = length ys * length xs"
  by (induction ys) simp_all

lemma filter_less_upt: "filter (\<lambda>i. i < m) [0 ..< n] = [0 ..< min m n]"
  by (induction n) auto

lemma length_below_half: "length (filter (\<lambda>i. 2 * i < n) [0 ..< n]) = (n + 1) div 2"
proof -
  have "(\<lambda>i. 2 * i < n) = (\<lambda>i. i < (n + 1) div 2)" by (rule ext) arith
  then show ?thesis by (simp add: filter_less_upt)
qed

lemma length_thresholded: "length (thresholded vals t) = length vals"
  by (simp add: thresholded_def)

lemma averageHash_length:
  "averageHash pf img n = Inr h \<Longrightarrow> sharp_resize pf img n n True = Inr px \<Longrightarrow>
   length h = length px"
  by (auto simp: averageHash_def length_thresholded Let_def)

lemma differenceHash_length: "differenceHash pf img n = Inr h \<Longrightarrow> length h = n * n"
  by (auto simp: differenceHash_def length_grid split: sum.splits)

lemma perceptualHash_length: "perceptualHash pf img n = Inr h \<Longrightarrow> length h = min 8 n * min 8 n"
  by (auto simp: perceptualHash_def length_grid length_thresholded Let_def split: sum.splits)

lemma advancedPerceptualHash_length:
  "advancedPerceptualHash pf img n = Inr h \<Longrightarrow> length h = min (n * 2) (n * n)"
  by (auto simp: advancedPerceptualHash_def length_thresholded Let_def split: sum.splits)

lemma waveletHash_length:
  "waveletHash pf img n = Inr h \<Longrightarrow> length h = ((n + 1) div 2) * ((n + 1) div 2)"
  by (auto simp: waveletHash_def length_grid length_thresholded length_below_half Let_def
      split: sum.splits)

lemma blockHash_length: "blockHash pf img n = Inr h \<Longrightarrow> length h = n * n"
  by (auto simp: blockHash_def length_grid split: sum.splits)

lemma length_calculateGradients: "length (calculateGradients pixels n) = (n - 2) * (n - 2)"
  by (simp add: calculateGradients_def length_grid numeral_2_eq_2)

lemma structuralHash_length: "structuralHash pf img n = Inr h \<Longrightarrow> length h = (n - 2) * (n - 2)"
  by (auto simp: structuralHash_def length_thresholded length_calculateGradients Let_def
      split: sum.splits)

lemma gradientHash_length: "gradientHash pf img n = Inr h \<Longrightarrow> length h = (n - 2) * (n - 2)"
  by (auto simp: gradientHash_def length_thresholded length_calculateGradients Let_def
      split: sum.splits)

lemma colorHistogramHash_length: "colorHistogramHash pf img n = Inr h \<Longrightarrow> length h = 3"
  by (auto simp: colorHistogramHash_def Let_def split: sum.splits)

lemma known_algorithms_cases:
  assumes "alg \<in> set known_algorithms"
  obtains "alg = ''average''" | "alg = ''dhash''" | "alg = ''phash''"
    | "alg = ''perceptual''" | "alg = ''wavelet''" | "alg = ''blockhash''"
    | "alg = ''structural''" | "alg = ''colorhistogram''" | "alg = ''gradient''"
proof -
  from assms have "alg = ''average'' \<or> alg = ''dhash'' \<or> alg = ''phash''
    \<or> alg = ''perceptual'' \<or> alg = ''wavelet'' \<or> alg = ''blockhash''
    \<or> alg = ''structural'' \<or> alg = ''colorhistogram'' \<or> alg = ''gradient''"
    unfolding known_algorithms_def by simp
  then show thesis
    using that by (elim disjE)
qed

lemma generateHash_known:
  assumes "generateHash pf img alg n = Inr r"
  shows "alg \<in> set known_algorithms"
proof (rule ccontr)
  assume "alg \<notin> set known_algorithms"
  then have "generateHash pf img alg n = Inl (HashGenerationFailed alg (UnknownAlgorithm alg))"
    by (rule generateHash_unknown)
  with assms show False by simp
qed

lemma generateHash_length:
  assumes "generateHash pf img alg n = Inr r"
    and "alg = ''average'' \<longrightarrow> delivers_grid pf img n"
  shows "length (hash r) = hash_length alg n"
proof -
  from generateHash_known [OF assms(1)] show ?thesis
  proof (cases rule: known_algorithms_cases)
    case 1
    with assms(1) have a: "averageHash pf img n = Inr (hash r)"
      by (auto simp: generateHash_def dispatch_def split: sum.splits)
    then obtain px where px: "sharp_resize pf img n n True = Inr px"
      by (auto simp: averageHash_def split: sum.splits)
    with assms(2) 1 have "length px = n * n" by (simp add: delivers_grid_def)
    with averageHash_length [OF a px] 1 show ?thesis by (simp add: hash_length_def)
  next
    case 2
    with assms(1) have "differenceHash pf img n = Inr (hash r)"
      by (auto simp: generateHash_def dispatch_def split: sum.splits)
    with 2 show ?thesis by (simp add: hash_length_def differenceHash_length)
  next
    case 3
    with assms(1) have "perceptualHash pf img n = Inr (hash r)"
      by (auto simp: generateHash_def dispatch_def split: sum.splits)
    with 3 show ?thesis by (simp add: hash_length_def perceptualHash_length)
  next
    case 4
    with assms(1) have "advancedPerceptualHash pf img n = Inr (hash r)"
      by (auto simp: generateHash_def dispatch_def split: sum.splits)
    with 4 show ?thesis by (simp add: hash_length_def advancedPerceptualHash_length)
  next
    case 5
    with assms(1) have "waveletHash pf img n = Inr (hash r)"
      by (auto simp: generateHash_def dispatch_def split: sum.splits)
    with 5 show ?thesis by (simp add: hash_length_def waveletHash_length)
  next
    case 6
    with assms(1) have "blockHash pf img n = Inr (hash r)"
      by (auto simp: generateHash_def dispatch_def split: sum.splits)
    with 6 show ?thesis by (simp add: hash_length_def blockHash_length)
  next
    case 7
    with assms(1) have "structuralHash pf img n = Inr (hash r)"
      by (auto simp: generateHash_def dispatch_def split: sum.splits)
    with 7 show ?thesis by (simp add: hash_length_def structuralHash_length)
  next
    case 8
    with assms(1) have "colorHistogramHash pf img n = Inr (hash r)"
      by (auto simp: generateHash_def dispatch_def split: sum.splits)
    with 8 show ?thesis by (simp add: hash_length_def colorHistogramHash_length)
  next
    case 9
    with assms(1) have "gradientHash pf img n = Inr (hash r)"
      by (auto simp: generateHash_def dispatch_def split: sum.splits)
    with 9 show ?thesis by (simp add: hash_length_def gradientHash_length)
  qed
qed

lemma sq_diff_nat: "2 \<le> n \<Longrightarrow> int ((n - 2) * (n - 2)) = (int n - 2)\<^sup>2" for n :: nat
  by (simp add: power2_eq_square)

lemma grid_nth:
  "r < m \<Longrightarrow> c < n \<Longrightarrow>
   concat (map (\<lambda>y. map (f y) [0 ..< n]) [0 ..< m]) ! (r * n + c) = f r c"
proof (induction m)
  case 0
  then show ?case by simp
next
  case (Suc m)
  show ?case
  proof (cases "r < m")
    case True
    then have "r * n + c < m * n"
    proof -
      from True have "Suc r \<le> m" by simp
      then have "Suc r * n \<le> m * n" by (rule mult_le_mono1)
      with \<open>c < n\<close> show ?thesis by simp
    qed
    with Suc.IH [OF True \<open>c < n\<close>] show ?thesis
      by (simp add: nth_append length_grid)
  next
    case False
    with \<open>r < Suc m\<close> have "r = m" by simp
    with \<open>c < n\<close> show ?thesis
      by (simp add: nth_append length_grid)
  qed
qed

lemma foldl_jadd_Num:
  "foldl (\<lambda>s a. jadd s (Num (g a))) (Num s0) xs = Num (s0 + sum_list (map g xs))"
  by (induction xs arbitrary: s0) (simp_all add: jadd_def add.assoc)

lemma sum_list_concat_real: "sum_list (concat xss) = sum_list (map sum_list xss)"
  for xss :: "real list list"
  by (induction xss) simp_all

lemma block_index:
  fixes r c y x n :: nat
  assumes "r < n" and "c < n" and "y < 4" and "x < 4"
  shows "(r * 4 + y) * (n * 4) + (c * 4 + x) < n * 4 * (n * 4)"
proof -
  from assms have "r * 4 + y + 1 \<le> n * 4" by simp
  then have "(r * 4 + y + 1) * (n * 4) \<le> n * 4 * (n * 4)" by (rule mult_le_mono1)
  moreover from assms have "c * 4 + x < n * 4" by simp
  ultimately show ?thesis by (simp add: algebra_simps)
qed

lemma block_cells_bound: "(y, x) \<in> set block_cells \<Longrightarrow> y < 4 \<and> x < 4"
  by (auto simp: block_cells_def)

lemma sum_block_cells:
  "sum_list (map (\<lambda>(y, x). g y x) block_cells) = (\<Sum>y<4. \<Sum>x<4. g y x)" for g :: "nat \<Rightarrow> nat \<Rightarrow> real"
proof -
  have "map (\<lambda>(y, x). g y x) block_cells =
          concat (map (\<lambda>y. map (\<lambda>x. g y x) [0 ..< 4]) [0 ..< 4])"
    unfolding block_cells_def by (simp add: map_concat comp_def)
  then have "sum_list (map (\<lambda>(y, x). g y x) block_cells) =
          sum_list (map (\<lambda>y. sum_list (map (\<lambda>x. g y x) [0 ..< 4])) [0 ..< 4])"
    by (simp add: sum_list_concat_real comp_def)
  also have "\<dots> = (\<Sum>y<4. \<Sum>x<4. g y x)"
    unfolding interv_sum_list_conv_sum_set_nat by (simp add: atLeast0LessThan)
  finally show ?thesis .
qed

lemma blockAvg_in_range:
  assumes "length px = n * 4 * (n * 4)" and "r < n" and "c < n"
  shows "blockAvg px n r c =
           Num ((\<Sum>y<4. \<Sum>x<4. real (unat (px ! ((r * 4 + y) * (n * 4) + (c * 4 + x))))) / 16)"
proof -
  let ?g = "\<lambda>(y, x). real (unat (px ! ((r * 4 + y) * (n * 4) + (c * 4 + x))))"
  have "foldl (\<lambda>blockSum (y, x).
                 let px' = c * 4 + x; py = r * 4 + y
                 in jadd blockSum (pix px (py * (n * 4) + px')))
              (Num 0) block_cells
        = foldl (\<lambda>s a. jadd s (Num (?g a))) (Num 0) block_cells"
  proof (rule foldl_cong [OF refl refl])
    fix s a
    assume "a \<in> set block_cells"
    moreover obtain y x where a: "a = (y, x)" by (cases a)
    ultimately have "y < 4" and "x < 4"
      using block_cells_bound [of y x] by simp_all
    with assms block_index [of r n c y x]
    have "(r * 4 + y) * (n * 4) + (c * 4 + x) < length px"
      by simp
    with a show "(case a of (y, x) \<Rightarrow>
                    let px' = c * 4 + x; py = r * 4 + y
                    in jadd s (pix px (py * (n * 4) + px'))) = jadd s (Num (?g a))"
      by (simp add: pix_def pnum_def)
  qed
  also have "\<dots> = Num (sum_list (map ?g block_cells))"
    by (simp add: foldl_jadd_Num)
  also have "sum_list (map ?g block_cells) =
      (\<Sum>y<4. \<Sum>x<4. real (unat (px ! ((r * 4 + y) * (n * 4) + (c * 4 + x)))))"
    by (rule sum_block_cells)
  finally show ?thesis
    by (simp add: blockAvg_def block_cells_def jdiv_def)
qed

lemma averageHash_mean:
  assumes "sharp_resize pf img n n True = Inr px" and "px \<noteq> []"
  shows "averageHash pf img n =
           Inr (map (\<lambda>p. bitc (sum_list (map (\<lambda>q. real (unat q)) px) / real (length px)
                                 < real (unat p))) px)"
proof -
  have "foldl (\<lambda>sum p. jadd sum (pnum p)) (Num 0) px =
          Num (0 + sum_list (map (\<lambda>q. real (unat q)) px))"
    unfolding pnum_def by (rule foldl_jadd_Num)
  with assms show ?thesis
    by (simp add: averageHash_def thresholded_def jdiv_def jgt_def pnum_def comp_def)
qed

lemma eval_structural_3:
  "structuralHash test_platform example_image1 3 = Inr ''0''"
  by (simp add: structuralHash_def test_platform_def example_image1_def calculateGradients_def
      thresholded_def median_def sort_numbers_def arr_def pix_def pnum_def jsub_def jmul_def
      jadd_def jsqrt_def jgt_def bitc_def upt_rec Let_def)

text \<open>
  Claim C5, as amended. On a pixel buffer that holds the \<open>4n\<close> by \<open>4n\<close> samples the block
  algorithm emits \<open>n * n\<close> bits, and the bit of block \<open>(r, c)\<close> is 1 exactly when the mean
  of the 16 samples of that block is strictly greater than the constant 128; no mean of
  the block means is computed. The average algorithm is the one that compares each
  sample with the mean of all samples.
\<close>

theorem blockHash_fixed_threshold:
  assumes "sharp_resize pf img (n * 4) (n * 4) True = Inr px"
    and "length px = n * 4 * (n * 4)"
  shows "(\<exists>h. blockHash pf img n = Inr h \<and> length h = n * n
           \<and> (\<forall>r<n. \<forall>c<n. h ! (r * n + c) =
                 bitc (128 < (\<Sum>y<4. \<Sum>x<4.
                          real (unat (px ! ((r * 4 + y) * (n * 4) + (c * 4 + x))))) / 16)))
       \<and> (\<forall>qx. sharp_resize pf img n n True = Inr qx \<and> qx \<noteq> [] \<longrightarrow>
             averageHash pf img n =
               Inr (map (\<lambda>p. bitc (sum_list (map (\<lambda>q. real (unat q)) qx) / real (length qx)
                                     < real (unat p))) qx))"
proof (intro conjI allI impI)
  let ?h = "concat (map (\<lambda>by. map (\<lambda>bx. bitc (jgt (blockAvg px n by bx) (Num 128)))
                                 [0 ..< n]) [0 ..< n])"
  have h: "blockHash pf img n = Inr ?h"
    using assms(1) by (simp add: blockHash_def)
  have len: "length ?h = n * n"
    by (simp add: length_grid)
  have bits: "?h ! (r * n + c) =
      bitc (128 < (\<Sum>y<4. \<Sum>x<4.
               real (unat (px ! ((r * 4 + y) * (n * 4) + (c * 4 + x))))) / 16)"
    if "r < n" and "c < n" for r c
    using that grid_nth [of r n c n "\<lambda>by bx. bitc (jgt (blockAvg px n by bx) (Num 128))"]
      blockAvg_in_range [OF assms(2) that]
    by (simp add: jgt_def)
  from h len bits
  show "\<exists>h. blockHash pf img n = Inr h \<and> length h = n * n
           \<and> (\<forall>r<n. \<forall>c<n. h ! (r * n + c) =
                 bitc (128 < (\<Sum>y<4. \<Sum>x<4.
                          real (unat (px ! ((r * 4 + y) * (n * 4) + (c * 4 + x))))) / 16))"
    by blast
next
  fix qx
  assume "sharp_resize pf img n n True = Inr qx \<and> qx \<noteq> []"
  then show "averageHash pf img n =
               Inr (map (\<lambda>p. bitc (sum_list (map (\<lambda>q. real (unat q)) qx) / real (length qx)
                                     < real (unat p))) qx)"
    by (simp add: averageHash_mean)
qed

theorem blockHash_fixed_threshold_witness:
  "sharp_resize test_platform [200] (1 * 4) (1 * 4) True = Inr (replicate 16 200)
   \<and> length (replicate 16 (200 :: pixel)) = 1 * 4 * (1 * 4)
   \<and> (\<exists>h. blockHash test_platform [200] 1 = Inr h \<and> length h = 1 \<and> h ! 0 = CHR ''1'')
   \<and> sharp_resize test_platform [200] 1 1 True = Inr [200]
   \<and> averageHash test_platform [200] 1 = Inr ''0''"
proof -
  have "replicate 16 (200 :: pixel) = map (\<lambda>i. 200) [0 ..< 16]"
    by (simp add: map_replicate_const)
  then have a: "sharp_resize test_platform [200] (1 * 4) (1 * 4) True = Inr (replicate 16 200)"
    by (simp add: test_platform_def)
  have b: "length (replicate 16 (200 :: pixel)) = 1 * 4 * (1 * 4)"
    by simp
  have q: "sharp_resize test_platform [200] 1 1 True = Inr [200]"
    by (simp add: test_platform_def)
  note t = blockHash_fixed_threshold [OF a b]
  from t obtain h where h: "blockHash test_platform [200] 1 = Inr h" and l: "length h = 1 * 1"
    and bit: "\<forall>r<1. \<forall>c<1. h ! (r * 1 + c) =
                 bitc (128 < (\<Sum>y<4. \<Sum>x<4. real (unat (replicate 16 (200 :: pixel)
                          ! ((r * 4 + y) * (1 * 4) + (c * 4 + x))))) / 16)"
    by blast
  from bit have "h ! 0 = bitc (128 < (\<Sum>y<(4::nat). \<Sum>x<(4::nat).
       real (unat (replicate 16 (200 :: pixel) ! (y * 4 + x)))) / 16)"
    by simp
  also have "(\<Sum>y<(4::nat). \<Sum>x<(4::nat).
       real (unat (replicate 16 (200 :: pixel) ! (y * 4 + x)))) = 3200"
    by (simp add: lessThan_nat_numeral lessThan_Suc)
  finally have "h ! 0 = CHR ''1''" by (simp add: bitc_def)
  moreover from t q have "averageHash test_platform [200] 1 = Inr ''0''"
    by (simp add: bitc_def)
  ultimately show ?thesis using a b h l q by simp
qed

text \<open>
  For C5 as it is stated: one block of 16 samples of value 200. Its mean is 200 and so
  is the mean of the coefficient sequence, so the policy of the claim gives bit 0; the
  code compares with 128 and gives bit 1.
\<close>

theorem blockHash_mean_counterexample:
  "blockHash test_platform [200] 1 = Inr ''1''
   \<and> blockHash_mean_policy test_platform [200] 1 = Inr ''0''"
  by (simp add: blockHash_def blockHash_mean_policy_def blockAvg_def test_platform_def
      thresholded_def pix_def pnum_def jadd_def jdiv_def jgt_def bitc_def upt_rec)

text \<open>
  Claim C8, as amended. No kernel checks the pixel buffer it is given. For each of the
  nine algorithms \<open>generateHash\<close> throws exactly when the image library throws, with that
  error wrapped by its \<open>catch\<close>; on whatever pixel buffer the library returns, an empty
  or an undersized one included, it returns a hash. The average algorithm then emits one
  bit per sample it was given.
\<close>

theorem kernels_fail_only_with_sharp:
  assumes "alg \<in> set known_algorithms"
  shows "(\<forall>e. sharp_error pf img alg n = Some e \<longrightarrow>
            generateHash pf img alg n = Inl (HashGenerationFailed alg e))
       \<and> (sharp_error pf img alg n = None \<longrightarrow> (\<exists>r. generateHash pf img alg n = Inr r))
       \<and> (\<forall>px. alg = ''average'' \<and> sharp_resize pf img n n True = Inr px \<longrightarrow>
            (\<exists>r. generateHash pf img alg n = Inr r \<and> length (hash r) = length px))"
  using assms
proof (cases rule: known_algorithms_cases)
  case 1
  then show ?thesis
    by (auto simp: sharp_error_def grid_width_def generateHash_def dispatch_def averageHash_def
        length_thresholded Let_def split: sum.splits)
next
  case 2
  then show ?thesis
    by (auto simp: sharp_error_def grid_width_def generateHash_def dispatch_def
        differenceHash_def split: sum.splits)
next
  case 3
  then show ?thesis
    by (auto simp: sharp_error_def grid_width_def generateHash_def dispatch_def
        perceptualHash_def Let_def split: sum.splits)
next
  case 4
  then show ?thesis
    by (auto simp: sharp_error_def grid_width_def generateHash_def dispatch_def
        advancedPerceptualHash_def Let_def split: sum.splits)
next
  case 5
  then show ?thesis
    by (auto simp: sharp_error_def grid_width_def generateHash_def dispatch_def
        waveletHash_def Let_def split: sum.splits)
next
  case 6
  then show ?thesis
    by (auto simp: sharp_error_def grid_width_def generateHash_def dispatch_def
        blockHash_def split: sum.splits)
next
  case 7
  then show ?thesis
    by (auto simp: sharp_error_def grid_width_def generateHash_def dispatch_def
        structuralHash_def Let_def split: sum.splits)
next
  case 8
  then show ?thesis
    by (auto simp: sharp_error_def grid_width_def generateHash_def dispatch_def
        colorHistogramHash_def Let_def split: sum.splits)
next
  case 9
  then show ?thesis
    by (auto simp: sharp_error_def grid_width_def generateHash_def dispatch_def
        gradientHash_def Let_def split: sum.splits)
qed

theorem kernels_fail_only_with_sharp_witness:
  "''average'' \<in> set known_algorithms
   \<and> sharp_error empty_platform example_image1 ''average'' 8 = None
   \<and> (\<exists>r. generateHash empty_platform example_image1 ''average'' 8 = Inr r \<and> length (hash r) = 0)
   \<and> sharp_error test_platform [] ''average'' 8 = Some (SharpError ''Input Buffer is empty'')
   \<and> generateHash test_platform [] ''average'' 8 =
       Inl (HashGenerationFailed ''average'' (SharpError ''Input Buffer is empty''))"
proof -
  have k: "''average'' \<in> set known_algorithms" by (simp add: known_algorithms_def)
  have n: "sharp_error empty_platform example_image1 ''average'' 8 = None"
    by (simp add: sharp_error_def grid_width_def empty_platform_def)
  have px: "sharp_resize empty_platform example_image1 8 8 True = Inr []"
    by (simp add: empty_platform_def)
  have s: "sharp_error test_platform [] ''average'' 8 = Some (SharpError ''Input Buffer is empty'')"
    by (simp add: sharp_error_def grid_width_def test_platform_def)
  from kernels_fail_only_with_sharp [OF k, of empty_platform example_image1 8] px
  have a: "\<exists>r. generateHash empty_platform example_image1 ''average'' 8 = Inr r
             \<and> length (hash r) = 0"
    by auto
  from kernels_fail_only_with_sharp [OF k, of test_platform "[]" 8] s
  have b: "generateHash test_platform [] ''average'' 8 =
       Inl (HashGenerationFailed ''average'' (SharpError ''Input Buffer is empty''))"
    by blast
  from k n a s b show ?thesis by blast
qed

text \<open>
  For C8 as it is stated: on an empty pixel buffer the average algorithm returns the
  empty hash, and the difference algorithm of size 2 returns four bits read from samples
  that are not there.
\<close>

theorem empty_pixel_buffer_counterexample:
  "generateHash empty_platform example_image1 ''average'' 8 =
     Inr \<lparr>hash = [], algorithm = ''average'', confidence = 1, metadata = [(''size'', MNum 8)]\<rparr>
   \<and> generateHash empty_platform example_image1 ''dhash'' 2 =
     Inr \<lparr>hash = ''0000'', algorithm = ''dhash'', confidence = 1,
          metadata = [(''size'', MNum 2)]\<rparr>"
  by (simp add: generateHash_def dispatch_def averageHash_def differenceHash_def
      empty_platform_def thresholded_def pix_def jgt_def bitc_def upt_rec)

text \<open>
  Claim C9, as amended. The hash \<open>generateHash\<close> returns has the length \<open>hash_length\<close> gives
  for the algorithm and the size (for \<open>average\<close>, where the loop runs over the samples
  returned, provided the image library delivers the \<open>n * n\<close> samples asked for), so two
  images hashed at the same level get hashes of equal length. For \<open>structural\<close> and
  \<open>gradient\<close> the length is \<open>(n - 2)\<^sup>2\<close> when \<open>n\<close> is at least 2 and the hash is empty when
  \<open>n\<close> is below 2; for \<open>colorhistogram\<close> it is 3.
\<close>

theorem hash_length_fixed:
  assumes "generateHash pf image1 alg n = Inr r1"
    and "generateHash pf image2 alg n = Inr r2"
    and "alg = ''average'' \<longrightarrow> delivers_grid pf image1 n \<and> delivers_grid pf image2 n"
  shows "length (hash r1) = hash_length alg n \<and> length (hash r2) = hash_length alg n
       \<and> (alg = ''structural'' \<or> alg = ''gradient'' \<longrightarrow>
            (2 \<le> n \<longrightarrow> int (length (hash r1)) = (int n - 2)\<^sup>2) \<and> (n < 2 \<longrightarrow> hash r1 = []))
       \<and> (alg = ''colorhistogram'' \<longrightarrow> length (hash r1) = 3)"
proof -
  have l1: "length (hash r1) = hash_length alg n"
    by (rule generateHash_length [OF assms(1)]) (use assms(3) in simp)
  have l2: "length (hash r2) = hash_length alg n"
    by (rule generateHash_length [OF assms(2)]) (use assms(3) in simp)
  have g: "alg = ''structural'' \<or> alg = ''gradient'' \<Longrightarrow> hash_length alg n = (n - 2) * (n - 2)"
    by (auto simp: hash_length_def)
  have c: "alg = ''colorhistogram'' \<Longrightarrow> hash_length alg n = 3"
    by (simp add: hash_length_def)
  show ?thesis
    using l1 l2 g c sq_diff_nat [of n] by auto
qed

theorem hash_length_fixed_witness:
  "(\<exists>r1 r2. generateHash test_platform example_image1 ''structural'' 3 = Inr r1
       \<and> generateHash test_platform example_image2 ''structural'' 3 = Inr r2
       \<and> length (hash r1) = 1 \<and> length (hash r2) = 1
       \<and> int (length (hash r1)) = (int 3 - 2)\<^sup>2)
   \<and> (\<exists>r1 r2. generateHash test_platform example_image1 ''average'' 2 = Inr r1
       \<and> generateHash test_platform example_image2 ''average'' 2 = Inr r2
       \<and> delivers_grid test_platform example_image1 2
       \<and> delivers_grid test_platform example_image2 2
       \<and> length (hash r1) = 4 \<and> length (hash r2) = 4)
   \<and> (\<exists>r1 r2. generateHash test_platform example_image1 ''colorhistogram'' 5 = Inr r1
       \<and> generateHash test_platform example_image2 ''colorhistogram'' 5 = Inr r2
       \<and> length (hash r1) = 3 \<and> length (hash r2) = 3)"
proof -
  obtain s1 s2 where s: "generateHash test_platform example_image1 ''structural'' 3 = Inr s1"
      "generateHash test_platform example_image2 ''structural'' 3 = Inr s2"
    by (simp add: generateHash_def dispatch_def structuralHash_def test_platform_def
        example_image1_def example_image2_def Let_def)
  obtain a1 a2 where a: "generateHash test_platform example_image1 ''average'' 2 = Inr a1"
      "generateHash test_platform example_image2 ''average'' 2 = Inr a2"
    by (simp add: generateHash_def dispatch_def averageHash_def test_platform_def
        example_image1_def example_image2_def Let_def)
  obtain c1 c2 where c: "generateHash test_platform example_image1 ''colorhistogram'' 5 = Inr c1"
      "generateHash test_platform example_image2 ''colorhistogram'' 5 = Inr c2"
    by (simp add: generateHash_def dispatch_def colorHistogramHash_def test_platform_def
        example_image1_def example_image2_def Let_def)
  have d: "delivers_grid test_platform example_image1 2 \<and> delivers_grid test_platform example_image2 2"
    by (simp add: delivers_grid_def test_platform_def example_image1_def example_image2_def Let_def)
  from hash_length_fixed [OF s] have "length (hash s1) = 1 \<and> length (hash s2) = 1
      \<and> int (length (hash s1)) = (int 3 - 2)\<^sup>2"
    by (simp add: hash_length_def)
  moreover from hash_length_fixed [OF a] d have "length (hash a1) = 4 \<and> length (hash a2) = 4"
    by (simp add: hash_length_def)
  moreover from hash_length_fixed [OF c] have "length (hash c1) = 3 \<and> length (hash c2) = 3"
    by (simp add: hash_length_def)
  ultimately show ?thesis using s a c d by simp
qed

text \<open>
  For C9 as it is stated: at size 1 the loops of \<open>calculateGradients\<close> do not run and the
  structural hash is empty, while \<open>(1 - 2)\<^sup>2 = 1\<close>.
\<close>

theorem structural_size_one_counterexample:
  "generateHash test_platform example_image1 ''structural'' 1 =
     Inr \<lparr>hash = [], algorithm = ''structural'', confidence = 0.88,
          metadata = [(''size'', MNum 1), (''structuralFeatures'', MBool True)]\<rparr>
   \<and> int (length ([] :: string)) \<noteq> (int 1 - 2)\<^sup>2"
  by (simp add: generateHash_def dispatch_def structuralHash_def test_platform_def
      example_image1_def calculateGradients_def thresholded_def)

text \<open>
  Claim C10. \<open>structuralHash\<close> and \<open>gradientHash\<close> are the same function of the image and
  the size. When \<open>generateHash\<close> returns for \<open>structural\<close>, with confidence 0.88 and the
  \<open>structuralFeatures\<close> annotation, it returns for \<open>gradient\<close> the same record but for the
  confidence 0.87, the \<open>gradientAnalysis\<close> annotation and the algorithm name it echoes;
  when it throws for one it throws for the other, with the same cause.
\<close>

theorem structural_gradient_same_hash:
  "structuralHash pf img n = gradientHash pf img n
   \<and> (\<forall>r. generateHash pf img ''structural'' n = Inr r \<longrightarrow>
          confidence r = 0.88
        \<and> metadata r = [(''size'', MNum n), (''structuralFeatures'', MBool True)]
        \<and> generateHash pf img ''gradient'' n =
            Inr (r\<lparr>algorithm := ''gradient'', confidence := 0.87,
                   metadata := [(''size'', MNum n), (''gradientAnalysis'', MBool True)]\<rparr>))
   \<and> (\<forall>e. generateHash pf img ''structural'' n = Inl (HashGenerationFailed ''structural'' e)
          \<longleftrightarrow> generateHash pf img ''gradient'' n = Inl (HashGenerationFailed ''gradient'' e))"
proof -
  have same: "structuralHash pf img n = gradientHash pf img n"
    by (simp add: structuralHash_def gradientHash_def)
  then show ?thesis
    by (auto simp: generateHash_def dispatch_def split: sum.splits)
qed

theorem structural_gradient_same_hash_witness:
  "generateHash test_platform example_image1 ''structural'' 3 =
     Inr \<lparr>hash = ''0'', algorithm = ''structural'', confidence = 0.88,
          metadata = [(''size'', MNum 3), (''structuralFeatures'', MBool True)]\<rparr>
   \<and> generateHash test_platform example_image1 ''gradient'' 3 =
     Inr \<lparr>hash = ''0'', algorithm = ''gradient'', confidence = 0.87,
          metadata = [(''size'', MNum 3), (''gradientAnalysis'', MBool True)]\<rparr>"
proof -
  have s: "generateHash test_platform example_image1 ''structural'' 3 =
     Inr \<lparr>hash = ''0'', algorithm = ''structural'', confidence = 0.88,
          metadata = [(''size'', MNum 3), (''structuralFeatures'', MBool True)]\<rparr>"
    by (simp add: generateHash_def dispatch_def eval_structural_3)
  with structural_gradient_same_hash [of test_platform example_image1 3]
  show ?thesis by simp
qed

end
